theory Spec2Isabelle
  imports Complex_Main "HOL-Library.AList" "HOL-Library.Sublist"
begin

section \<open>Conventions of the embedding\<close>

text \<open>
  The development embeds the verification core of the AgentID Python SDK:
  \<^verbatim>\<open>agentid/cache.py\<close>, \<^verbatim>\<open>agentid/signature.py\<close>, \<^verbatim>\<open>agentid/verifier.py\<close>,
  \<^verbatim>\<open>agentid/revocation.py\<close> and \<^verbatim>\<open>agentid/credential.py\<close>.

  \<^item> A Python \<^verbatim>\<open>str\<close> is a \<open>string\<close>; a \<^verbatim>\<open>dict\<close> whose size or iteration order
    matters is an association list with distinct keys, in insertion order.
  \<^item> \<^verbatim>\<open>time.time()\<close> is a parameter \<open>now\<close> of every operation that reads the clock.
    It is a real number: the rounding of binary floating point is not modelled, and
    one operation reads the clock once.
  \<^item> An exception is a value \<open>Inl e\<close> of the sum type \<open>error + 'a\<close>; mutation of the
    cache or of an object is explicit state passing.
  \<^item> The remote authority, the random nonce and the functions of \<^verbatim>\<open>hashlib\<close>,
    \<^verbatim>\<open>hmac\<close>, \<^verbatim>\<open>base64\<close> and \<^verbatim>\<open>fnmatch\<close> are parameters.
\<close>

datatype error =
    AgentIDError string "string option"
  | CredentialNotFoundError
  | CredentialExpiredError
  | CredentialRevokedError
  | CredentialInvalidError
  | AuthenticationError
  | RateLimitError "int option"
  | NetworkError
  | SignatureError
  | ValueError
  | TypeError
  | OverflowError
  | AttributeError
  | ValidationError

section \<open>The cache (\<^verbatim>\<open>agentid/cache.py\<close>)\<close>

record 'v cache_entry =
  entry_value :: 'v
  expires_at :: real
  created_at :: real

definition is_expired :: "real \<Rightarrow> 'v cache_entry \<Rightarrow> bool" where
  "is_expired now e \<longleftrightarrow> now \<ge> expires_at e"

definition time_to_live :: "real \<Rightarrow> 'v cache_entry \<Rightarrow> real" where
  "time_to_live now e = max 0 (expires_at e - now)"

record 'v credential_cache =
  cache_store :: "(string \<times> 'v cache_entry) list"
  default_ttl :: real

definition new_cache :: "real \<Rightarrow> 'v credential_cache" where
  "new_cache ttl = \<lparr>cache_store = [], default_ttl = ttl\<rparr>"

definition cache_get ::
  "real \<Rightarrow> 'v credential_cache \<Rightarrow> string \<Rightarrow> 'v option \<times> 'v credential_cache" where
  "cache_get now c key =
     (case map_of (cache_store c) key of
        None \<Rightarrow> (None, c)
      | Some entry \<Rightarrow>
          if is_expired now entry
          then (None, c\<lparr>cache_store := AList.delete key (cache_store c)\<rparr>)
          else (Some (entry_value entry), c))"

definition cache_set ::
  "real \<Rightarrow> 'v credential_cache \<Rightarrow> string \<Rightarrow> 'v \<Rightarrow> real option \<Rightarrow> 'v credential_cache" where
  "cache_set now c key v ttl =
     (let ttl' = (case ttl of None \<Rightarrow> default_ttl c | Some t \<Rightarrow> t)
      in c\<lparr>cache_store :=
            AList.update key
              \<lparr>entry_value = v, expires_at = now + ttl', created_at = now\<rparr>
              (cache_store c)\<rparr>)"

definition cache_delete :: "'v credential_cache \<Rightarrow> string \<Rightarrow> bool \<times> 'v credential_cache" where
  "cache_delete c key =
     (if key \<in> fst ` set (cache_store c)
      then (True, c\<lparr>cache_store := AList.delete key (cache_store c)\<rparr>)
      else (False, c))"

definition cache_clear :: "'v credential_cache \<Rightarrow> 'v credential_cache" where
  "cache_clear c = c\<lparr>cache_store := []\<rparr>"

definition cleanup_expired :: "real \<Rightarrow> 'v credential_cache \<Rightarrow> nat \<times> 'v credential_cache" where
  "cleanup_expired now c =
     (let expired_keys = map fst (filter (\<lambda>(key, entry). is_expired now entry) (cache_store c))
      in (length expired_keys,
          c\<lparr>cache_store := fold AList.delete expired_keys (cache_store c)\<rparr>))"


definition get_ttl :: "real \<Rightarrow> 'v credential_cache \<Rightarrow> string \<Rightarrow> real option" where
  "get_ttl now c key =
     (case map_of (cache_store c) key of
        None \<Rightarrow> None
      | Some entry \<Rightarrow> if is_expired now entry then None else Some (time_to_live now entry))"

text \<open>The keys of a Python dictionary are pairwise distinct.\<close>

definition dict_ok :: "'v credential_cache \<Rightarrow> bool" where
  "dict_ok c \<longleftrightarrow> distinct (map fst (cache_store c))"

section \<open>Python strings and integers\<close>

definition truthy :: "string option \<Rightarrow> bool" where
  \<comment> \<open>\<^verbatim>\<open>if x:\<close> for \<^verbatim>\<open>x: str | None\<close>: neither \<^verbatim>\<open>None\<close> nor the empty string.\<close>
  "truthy x \<longleftrightarrow> (case x of None \<Rightarrow> False | Some s \<Rightarrow> s \<noteq> [])"

definition lower_char :: "char \<Rightarrow> char" where
  \<comment> \<open>\<^verbatim>\<open>str.lower()\<close> on the code points below 256\<close>
  "lower_char c =
     (let n = (of_char c :: nat)
      in if (65 \<le> n \<and> n \<le> 90) \<or> (192 \<le> n \<and> n \<le> 222 \<and> n \<noteq> 215)
         then char_of (n + 32) else c)"

definition lower :: "string \<Rightarrow> string" where
  "lower s = map lower_char s"

definition upper_char :: "char \<Rightarrow> char" where
  \<comment> \<open>\<^verbatim>\<open>str.upper()\<close> on ASCII letters; other characters are kept\<close>
  "upper_char c =
     (let n = (of_char c :: nat)
      in if 97 \<le> n \<and> n \<le> 122 then char_of (n - 32) else c)"

definition upper :: "string \<Rightarrow> string" where
  "upper s = map upper_char s"

definition is_space :: "char \<Rightarrow> bool" where
  \<comment> \<open>\<^verbatim>\<open>str.isspace()\<close> on the code points below 256\<close>
  "is_space c \<longleftrightarrow> (of_char c :: nat) \<in> {9, 10, 11, 12, 13, 28, 29, 30, 31, 32, 133, 160}"

definition strip :: "string \<Rightarrow> string" where
  "strip s = rev (dropWhile is_space (rev (dropWhile is_space s)))"

definition is_digit :: "char \<Rightarrow> bool" where
  "is_digit c \<longleftrightarrow> 48 \<le> (of_char c :: nat) \<and> (of_char c :: nat) \<le> 57"

definition digit_val :: "char \<Rightarrow> nat" where
  "digit_val c = of_char c - 48"

text \<open>
  The digits of a decimal literal as \<^verbatim>\<open>int()\<close> reads them: one underscore is
  allowed between two digits.
\<close>

fun digits_val :: "nat \<Rightarrow> string \<Rightarrow> nat option" where
  "digits_val acc [] = Some acc"
| "digits_val acc (c # cs) =
     (if is_digit c then digits_val (10 * acc + digit_val c) cs
      else if c = CHR ''_'' then
        (case cs of
           [] \<Rightarrow> None
         | d # _ \<Rightarrow> if is_digit d then digits_val acc cs else None)
      else None)"

definition py_nat :: "string \<Rightarrow> nat option" where
  "py_nat s = (case s of [] \<Rightarrow> None | c # _ \<Rightarrow> if is_digit c then digits_val 0 s else None)"

definition py_int :: "string \<Rightarrow> int option" where
  \<comment> \<open>\<^verbatim>\<open>int(s)\<close>; \<open>None\<close> stands for \<^verbatim>\<open>ValueError\<close>. The interpreter's optional limit on
      the number of digits is not modelled.\<close>
  "py_int s =
     (case strip s of
        [] \<Rightarrow> None
      | c # r \<Rightarrow>
          if c = CHR ''-'' then map_option (\<lambda>n. - int n) (py_nat r)
          else if c = CHR ''+'' then map_option int (py_nat r)
          else map_option int (py_nat (c # r)))"

definition digit_char :: "nat \<Rightarrow> char" where
  "digit_char d = char_of (48 + d)"

function digits_of :: "nat \<Rightarrow> string" where
  "digits_of n = (if n < 10 then [digit_char n] else digits_of (n div 10) @ [digit_char (n mod 10)])"
  by pat_completeness auto
termination
  by (relation "measure id") auto

declare digits_of.simps [simp del]

definition py_str :: "int \<Rightarrow> string" where
  \<comment> \<open>\<^verbatim>\<open>str(n)\<close> for an \<^verbatim>\<open>int\<close>\<close>
  "py_str n = (if n < 0 then CHR ''-'' # digits_of (nat (- n)) else digits_of (nat n))"

definition float_overflow :: "int \<Rightarrow> bool" where
  \<comment> \<open>Converting an \<^verbatim>\<open>int\<close> to a \<^verbatim>\<open>float\<close> raises \<^verbatim>\<open>OverflowError\<close> when the value,
      rounded to 53 bits, does not fit the binary64 format.\<close>
  "float_overflow n \<longleftrightarrow> \<bar>n\<bar> \<ge> 2 ^ 1024 - 2 ^ 970"

definition is_ascii :: "string \<Rightarrow> bool" where
  "is_ascii s \<longleftrightarrow> list_all (\<lambda>c. (of_char c :: nat) < 128) s"

section \<open>Types (\<^verbatim>\<open>agentid/types.py\<close>)\<close>

record permission_conditions =
  valid_hours :: "(string \<times> string) list option"
  valid_days :: "string list option"
  max_requests_per_minute :: "int option"
  max_requests_per_day :: "int option"
  max_records_per_request :: "int option"
  allowed_fields :: "string list option"
  allowed_regions :: "string list option"
  max_transaction_amount :: "real option"
  daily_spend_limit :: "real option"
  requires_approval :: bool
  approval_webhook :: "string option"

record permission =
  resource :: string
  actions :: "string list"
  conditions :: "permission_conditions option"

datatype perm = PStr string | PStruct permission

record credential_constraints =
  valid_from :: real
  valid_until :: real

record credential_payload =
  credential_id :: string
  agent_id :: string
  agent_name :: string
  permissions :: "perm list"
  constraints :: credential_constraints
  signature :: string

record verification_result =
  valid :: bool
  credential :: "credential_payload option"
  error :: "string option"
  error_code :: "string option"
  trust_score :: "int option"
  issuer_verified :: "bool option"

text \<open>
  The dictionaries held by the shared cache: the dump of a verification result (written
  by the verifier), the dump of a credential payload (written by the credential handle),
  or any other dictionary, which validates as neither.
\<close>

datatype cache_value =
    ResultDict verification_result
  | PayloadDict credential_payload
  | OtherDict "(string \<times> string) list"

definition dict_truthy :: "cache_value \<Rightarrow> bool" where
  \<comment> \<open>a dictionary is true when it is not empty; the dump of a model never is\<close>
  "dict_truthy d \<longleftrightarrow> (case d of OtherDict kvs \<Rightarrow> kvs \<noteq> [] | _ \<Rightarrow> True)"

definition result_of_dict :: "cache_value \<Rightarrow> error + verification_result" where
  \<comment> \<open>\<^verbatim>\<open>VerificationResult(**cached)\<close>\<close>
  "result_of_dict d = (case d of ResultDict r \<Rightarrow> Inr r | _ \<Rightarrow> Inl ValidationError)"

definition payload_of_dict :: "cache_value \<Rightarrow> error + credential_payload" where
  \<comment> \<open>\<^verbatim>\<open>CredentialPayload(**cached)\<close>\<close>
  "payload_of_dict d = (case d of PayloadDict p \<Rightarrow> Inr p | _ \<Rightarrow> Inl ValidationError)"

type_synonym cache = "cache_value credential_cache"

section \<open>The remote authority\<close>

text \<open>
  The body of a reply of the verify endpoint: not JSON, JSON that is not an object, or
  an object with the fields the SDK reads. \<open>j_valid\<close> is \<open>None\<close> when the required
  field \<^verbatim>\<open>valid\<close> is missing or not a boolean, and \<open>Malformed\<close> is a \<^verbatim>\<open>credential\<close> field
  that does not validate as a payload.
\<close>

datatype payload_field = Absent | Malformed | Present credential_payload

record json_fields =
  j_valid :: "bool option"
  j_credential :: payload_field
  j_error :: "string option"
  j_error_code :: "string option"
  j_trust_score :: "int option"
  j_issuer_verified :: "bool option"

datatype json_body = NotJson | JsonNonDict | JsonDict json_fields

record http_response =
  status_code :: nat
  retry_after :: "string option"
  resp_body :: json_body

datatype remote_reply = RequestFailed | Reply http_response

definition is_success :: "http_response \<Rightarrow> bool" where
  "is_success r \<longleftrightarrow> 200 \<le> status_code r \<and> status_code r < 300"

definition parse_result :: "json_fields \<Rightarrow> error + verification_result" where
  \<comment> \<open>\<^verbatim>\<open>VerificationResult(**data)\<close>\<close>
  "parse_result f =
     (case j_valid f of
        None \<Rightarrow> Inl ValidationError
      | Some b \<Rightarrow>
          (case j_credential f of
             Malformed \<Rightarrow> Inl ValidationError
           | Absent \<Rightarrow>
               Inr \<lparr>valid = b, credential = None, error = j_error f,
                    error_code = j_error_code f, trust_score = j_trust_score f,
                    issuer_verified = j_issuer_verified f\<rparr>
           | Present p \<Rightarrow>
               Inr \<lparr>valid = b, credential = Some p, error = j_error f,
                    error_code = j_error_code f, trust_score = j_trust_score f,
                    issuer_verified = j_issuer_verified f\<rparr>))"

definition rate_limit_error :: "http_response \<Rightarrow> error" where
  \<comment> \<open>\<^verbatim>\<open>RateLimitError(..., retry_after=int(retry_after) if retry_after else None)\<close>\<close>
  "rate_limit_error r =
     (case retry_after r of
        None \<Rightarrow> RateLimitError None
      | Some s \<Rightarrow>
          if s = [] then RateLimitError None
          else (case py_int s of
                  None \<Rightarrow> ValueError
                | Some n \<Rightarrow> RateLimitError (Some n)))"

section \<open>The verifier (\<^verbatim>\<open>agentid/verifier.py\<close>)\<close>

record verifier =
  api_base :: string
  cache_ttl :: real
  verify_signature :: bool
  signature_max_age :: int

text \<open>
  The outcome of an operation of the verifier: the value returned or the exception
  raised, the cache afterwards, and the number of requests sent to the remote authority.
\<close>

type_synonym 'a outcome = "(error + 'a) \<times> cache \<times> nat"

definition extract_credential_info ::
  "(string \<times> string) list \<Rightarrow> string option \<times> string option \<times> string option \<times> string option" where
  \<comment> \<open>\<^verbatim>\<open>normalized = {k.lower(): v for k, v in headers.items()}\<close>: of two names equal up to
      case, the later one wins.\<close>
  "extract_credential_info headers =
     (let normalized = map_of (rev (map (\<lambda>(k, v). (lower k, v)) headers))
      in (normalized ''x-agentid-credential'',
          normalized ''x-agentid-timestamp'',
          normalized ''x-agentid-nonce'',
          normalized ''x-agentid-signature''))"

definition handle_response :: "http_response \<Rightarrow> error + verification_result" where
  "handle_response response =
     (if status_code response = 429 then Inl (rate_limit_error response)
      else (case resp_body response of
              NotJson \<Rightarrow> Inl (AgentIDError ''Invalid response'' None)
            | JsonNonDict \<Rightarrow> Inl TypeError
            | JsonDict data \<Rightarrow> parse_result data))"

definition call_api ::
  "verifier \<Rightarrow> real \<Rightarrow> remote_reply \<Rightarrow> cache \<Rightarrow> string \<Rightarrow> bool \<Rightarrow> verification_result outcome" where
  \<comment> \<open>the part of \<^verbatim>\<open>verify_credential\<close> after the cache lookup\<close>
  "call_api v now remote c cred_id use_cache =
     (case remote of
        RequestFailed \<Rightarrow> (Inl NetworkError, c, 1)
      | Reply response \<Rightarrow>
          (case handle_response response of
             Inl e \<Rightarrow> (Inl e, c, 1)
           | Inr result \<Rightarrow>
               if use_cache \<and> valid result
               then (Inr result,
                     cache_set now c (''verify:'' @ cred_id) (ResultDict result)
                       (Some (cache_ttl v)), 1)
               else (Inr result, c, 1)))"

definition verify_credential ::
  "verifier \<Rightarrow> real \<Rightarrow> remote_reply \<Rightarrow> cache \<Rightarrow> string \<Rightarrow> bool \<Rightarrow> verification_result outcome" where
  "verify_credential v now remote c cred_id use_cache =
     (if use_cache then
        (case cache_get now c (''verify:'' @ cred_id) of
           (Some cached, c') \<Rightarrow>
             if dict_truthy cached then (result_of_dict cached, c', 0)
             else call_api v now remote c' cred_id use_cache
         | (None, c') \<Rightarrow> call_api v now remote c' cred_id use_cache)
      else call_api v now remote c cred_id use_cache)"

definition verify_credential_async ::
  "verifier \<Rightarrow> real \<Rightarrow> remote_reply \<Rightarrow> cache \<Rightarrow> string \<Rightarrow> bool \<Rightarrow> verification_result outcome" where
  "verify_credential_async v now remote c cred_id use_cache =
     (if use_cache then
        (case cache_get now c (''verify:'' @ cred_id) of
           (Some cached, c') \<Rightarrow>
             if dict_truthy cached then (result_of_dict cached, c', 0)
             else call_api v now remote c' cred_id use_cache
         | (None, c') \<Rightarrow> call_api v now remote c' cred_id use_cache)
      else call_api v now remote c cred_id use_cache)"

definition rejected :: "string \<Rightarrow> string \<Rightarrow> verification_result" where
  \<comment> \<open>\<^verbatim>\<open>VerificationResult(valid=False, error=..., error_code=...)\<close>\<close>
  "rejected msg code =
     \<lparr>valid = False, credential = None, error = Some msg, error_code = Some code,
      trust_score = None, issuer_verified = None\<rparr>"

text \<open>
  The local checks of \<^verbatim>\<open>verify_request\<close>, shared by the blocking and the asynchronous
  method: \<open>Some\<close> is the value returned or the exception raised before the credential
  is resolved, \<open>None\<close> means that the method goes on to \<^verbatim>\<open>verify_credential\<close>.
  \<^verbatim>\<open>abs(time.time() - ts)\<close> converts the integer to a float, which raises
  \<^verbatim>\<open>OverflowError\<close>; the handler catches \<^verbatim>\<open>ValueError\<close> only.
\<close>

definition local_checks ::
  "verifier \<Rightarrow> real \<Rightarrow> string option \<Rightarrow> string option \<Rightarrow> string option
     \<Rightarrow> (error + verification_result) option" where
  "local_checks v now cred_id timestamp sig =
     (if \<not> truthy cred_id
      then Some (Inr (rejected ''Missing X-AgentID-Credential header'' ''MISSING_CREDENTIAL''))
      else if verify_signature v then
        (if \<not> truthy timestamp \<or> \<not> truthy sig
         then Some (Inr (rejected ''Missing signature headers'' ''MISSING_SIGNATURE''))
         else (case py_int (the timestamp) of
                 None \<Rightarrow> Some (Inr (rejected ''Invalid timestamp'' ''INVALID_TIMESTAMP''))
               | Some ts \<Rightarrow>
                   if float_overflow ts then Some (Inl OverflowError)
                   else if \<bar>now - real_of_int ts\<bar> > real_of_int (signature_max_age v)
                   then Some (Inr (rejected ''Request signature expired'' ''SIGNATURE_EXPIRED''))
                   else None))
      else None)"

definition verify_request ::
  "verifier \<Rightarrow> real \<Rightarrow> remote_reply \<Rightarrow> cache \<Rightarrow> (string \<times> string) list
     \<Rightarrow> verification_result outcome" where
  "verify_request v now remote c headers =
     (case extract_credential_info headers of
        (cred_id, timestamp, nonce, sig) \<Rightarrow>
          (case local_checks v now cred_id timestamp sig of
             Some r \<Rightarrow> (r, c, 0)
           | None \<Rightarrow> verify_credential v now remote c (the cred_id) True))"

definition verify_request_async ::
  "verifier \<Rightarrow> real \<Rightarrow> remote_reply \<Rightarrow> cache \<Rightarrow> (string \<times> string) list
     \<Rightarrow> verification_result outcome" where
  "verify_request_async v now remote c headers =
     (case extract_credential_info headers of
        (cred_id, timestamp, nonce, sig) \<Rightarrow>
          (case local_checks v now cred_id timestamp sig of
             Some r \<Rightarrow> (r, c, 0)
           | None \<Rightarrow> verify_credential_async v now remote c (the cred_id) True))"






section \<open>The permission evaluator (\<^verbatim>\<open>check_permission\<close> in \<^verbatim>\<open>agentid/verifier.py\<close>)\<close>

text \<open>
  The values of a context dictionary that the evaluator reads: numbers and strings.
  The two library functions it calls are parameters: \<^verbatim>\<open>fnmatch.fnmatch\<close> (first the
  name, then the pattern) and the text of a float in an f-string.
\<close>

datatype pynum = PyInt int | PyFloat real

datatype ctx_value = Num pynum | Str string

type_synonym ctx_dict = "(string \<times> ctx_value) list"

record pylib =
  fnmatch :: "string \<Rightarrow> string \<Rightarrow> bool"
  float_repr :: "real \<Rightarrow> string"

definition num_val :: "pynum \<Rightarrow> real" where
  "num_val n = (case n of PyInt i \<Rightarrow> real_of_int i | PyFloat x \<Rightarrow> x)"

definition num_str :: "pylib \<Rightarrow> pynum \<Rightarrow> string" where
  "num_str P n = (case n of PyInt i \<Rightarrow> py_str i | PyFloat x \<Rightarrow> float_repr P x)"

record decision =
  granted :: bool
  reason :: "string option"

definition grant :: decision where
  "grant = \<lparr>granted = True, reason = None\<rparr>"

definition deny :: "string \<Rightarrow> decision" where
  "deny why = \<lparr>granted = False, reason = Some why\<rparr>"

text \<open>
  The check of the amount limit: \<open>Some\<close> is an early return (or the \<^verbatim>\<open>TypeError\<close> of
  comparing a string with a float), \<open>None\<close> falls through to the next check. A limit or
  an amount equal to zero is false in \<^verbatim>\<open>if\<close>.
\<close>

definition amount_check :: "pylib \<Rightarrow> permission_conditions \<Rightarrow> ctx_dict \<Rightarrow> (error + decision) option" where
  "amount_check P c cx =
     (case max_transaction_amount c of
        None \<Rightarrow> None
      | Some limit \<Rightarrow>
          if limit = 0 then None
          else (case map_of cx ''amount'' of
                  None \<Rightarrow> None
                | Some (Num amount) \<Rightarrow>
                    if num_val amount \<noteq> 0 \<and> num_val amount > limit
                    then Some (Inr (deny (''Amount '' @ num_str P amount @ '' exceeds limit ''
                                           @ float_repr P limit)))
                    else None
                | Some (Str amount) \<Rightarrow> if amount = [] then None else Some (Inl TypeError)))"

definition region_check :: "pylib \<Rightarrow> permission_conditions \<Rightarrow> ctx_dict \<Rightarrow> (error + decision) option" where
  "region_check P c cx =
     (case allowed_regions c of
        None \<Rightarrow> None
      | Some regions \<Rightarrow>
          if regions = [] then None
          else (case map_of cx ''region'' of
                  None \<Rightarrow> None
                | Some (Str region) \<Rightarrow>
                    if region \<noteq> [] \<and> region \<notin> set regions
                    then Some (Inr (deny (''Region '' @ region @ '' not allowed'')))
                    else None
                | Some (Num region) \<Rightarrow>
                    if num_val region \<noteq> 0
                    then Some (Inr (deny (''Region '' @ num_str P region @ '' not allowed'')))
                    else None))"

definition check_conditions :: "pylib \<Rightarrow> permission \<Rightarrow> ctx_dict option \<Rightarrow> error + decision" where
  \<comment> \<open>the body of the loop once resource and action match; the branches for the time window
      and the rate limits are \<^verbatim>\<open>pass\<close>\<close>
  "check_conditions P p ctx =
     (case conditions p of
        None \<Rightarrow> Inr grant
      | Some c \<Rightarrow>
          (case ctx of
             None \<Rightarrow> Inr grant
           | Some cx \<Rightarrow>
               if cx = [] then Inr grant
               else (case amount_check P c cx of
                       Some r \<Rightarrow> r
                     | None \<Rightarrow>
                         (case region_check P c cx of
                            Some r \<Rightarrow> r
                          | None \<Rightarrow> Inr grant))))"

fun check_permission ::
  "pylib \<Rightarrow> perm list \<Rightarrow> string \<Rightarrow> string \<Rightarrow> ctx_dict option \<Rightarrow> error + decision" where
  "check_permission P [] res action ctx =
     Inr (deny (''No permission for '' @ action @ '' on '' @ res))"
| "check_permission P (PStr s # perms) res action ctx =
     (if s = ''*'' \<or> s = action then Inr grant
      else check_permission P perms res action ctx)"
| "check_permission P (PStruct p # perms) res action ctx =
     (if \<not> fnmatch P res (resource p) then check_permission P perms res action ctx
      else if action \<notin> set (actions p) \<and> ''*'' \<notin> set (actions p)
      then check_permission P perms res action ctx
      else check_conditions P p ctx)"

text \<open>
  The reading of the evaluator in the specification: an entry is passed over when it is
  a string other than \<^verbatim>\<open>*\<close> and the action, or a structured permission whose resource
  pattern or whose actions do not match; the first entry that is not passed over decides.
\<close>

definition passed_over :: "pylib \<Rightarrow> string \<Rightarrow> string \<Rightarrow> perm \<Rightarrow> bool" where
  "passed_over P res action perm =
     (case perm of
        PStr s \<Rightarrow> s \<noteq> ''*'' \<and> s \<noteq> action
      | PStruct p \<Rightarrow>
          \<not> (fnmatch P res (resource p) \<and> (action \<in> set (actions p) \<or> ''*'' \<in> set (actions p))))"

definition first_match_decision ::
  "pylib \<Rightarrow> perm list \<Rightarrow> string \<Rightarrow> string \<Rightarrow> ctx_dict option \<Rightarrow> error + decision" where
  "first_match_decision P perms res action ctx =
     (case find (\<lambda>perm. \<not> passed_over P res action perm) perms of
        None \<Rightarrow> Inr \<lparr>granted = False, reason = Some (''No permission for '' @ action @ '' on '' @ res)\<rparr>
      | Some (PStr s) \<Rightarrow> Inr \<lparr>granted = True, reason = None\<rparr>
      | Some (PStruct p) \<Rightarrow> check_conditions P p ctx)"

text \<open>
  A stand-in for \<^verbatim>\<open>fnmatch\<close> in closed examples, on patterns whose only special character
  is \<^verbatim>\<open>*\<close> (any run of characters, the whole name matched), and for the text of a float
  with an integral value.
\<close>

fun star_match :: "string \<Rightarrow> string \<Rightarrow> bool" where
  "star_match [] [] \<longleftrightarrow> True"
| "star_match (c # cs) [] \<longleftrightarrow> False"
| "star_match [] (p # ps) \<longleftrightarrow> p = CHR ''*'' \<and> star_match [] ps"
| "star_match (c # cs) (p # ps) \<longleftrightarrow>
     (if p = CHR ''*'' then star_match (c # cs) ps \<or> star_match cs (p # ps)
      else p = c \<and> star_match cs ps)"

definition demo_pylib :: pylib where
  "demo_pylib = \<lparr>fnmatch = star_match, float_repr = (\<lambda>x. py_str \<lfloor>x\<rfloor> @ ''.0'')\<rparr>"


definition users_permission :: permission where
  "users_permission =
     \<lparr>resource = ''https://api.example.com/users/*'', actions = [''read'', ''write''],
      conditions = None\<rparr>"



section \<open>Request signatures (\<^verbatim>\<open>agentid/signature.py\<close>)\<close>

text \<open>
  The functions of \<^verbatim>\<open>hashlib\<close>, \<^verbatim>\<open>hmac\<close> and \<^verbatim>\<open>base64\<close> that the module calls, and the
  UTF-8 encoding of a \<^verbatim>\<open>str\<close>, as a record of functions on byte strings.
\<close>

record hash_lib =
  sha256_digest :: "string \<Rightarrow> string"
  sha256_hexdigest :: "string \<Rightarrow> string"
  hmac_sha256 :: "string \<Rightarrow> string \<Rightarrow> string"
  b64encode :: "string \<Rightarrow> string"
  encode_utf8 :: "string \<Rightarrow> string"

datatype request_body = BodyNone | BodyStr string | BodyBytes string

definition body_hash :: "hash_lib \<Rightarrow> request_body \<Rightarrow> string" where
  \<comment> \<open>empty unless the body is true, that is neither \<^verbatim>\<open>None\<close> nor empty\<close>
  "body_hash L body =
     (case body of
        BodyNone \<Rightarrow> []
      | BodyStr s \<Rightarrow> if s = [] then [] else sha256_hexdigest L (encode_utf8 L s)
      | BodyBytes b \<Rightarrow> if b = [] then [] else sha256_hexdigest L b)"

definition signing_string :: "hash_lib \<Rightarrow> string \<Rightarrow> string \<Rightarrow> request_body \<Rightarrow> int \<Rightarrow> string \<Rightarrow> string" where
  "signing_string L method url body timestamp cred_id =
     upper method @ [CHR 0x0A] @ url @ [CHR 0x0A] @ py_str timestamp @ [CHR 0x0A]
       @ cred_id @ [CHR 0x0A] @ body_hash L body"

definition generate_request_signature ::
  "hash_lib \<Rightarrow> string \<Rightarrow> string \<Rightarrow> request_body \<Rightarrow> int \<Rightarrow> string \<Rightarrow> string option \<Rightarrow> string" where
  "generate_request_signature L method url body timestamp cred_id secret =
     (let s = signing_string L method url body timestamp cred_id;
          sg = (case secret of
                  None \<Rightarrow> sha256_digest L (encode_utf8 L s)
                | Some k \<Rightarrow>
                    if k = [] then sha256_digest L (encode_utf8 L s)
                    else hmac_sha256 L (encode_utf8 L k) (encode_utf8 L s))
      in b64encode L sg)"

definition compare_digest :: "string \<Rightarrow> string \<Rightarrow> error + bool" where
  \<comment> \<open>\<^verbatim>\<open>hmac.compare_digest\<close> on two \<^verbatim>\<open>str\<close>: it raises \<^verbatim>\<open>TypeError\<close> unless both are ASCII\<close>
  "compare_digest a b = (if is_ascii a \<and> is_ascii b then Inr (a = b) else Inl TypeError)"

definition py_trunc :: "real \<Rightarrow> int" where
  \<comment> \<open>\<^verbatim>\<open>int(x)\<close> for a float: rounding towards zero\<close>
  "py_trunc x = (if x \<ge> 0 then \<lfloor>x\<rfloor> else \<lceil>x\<rceil>)"

definition verify_request_signature ::
  "hash_lib \<Rightarrow> real \<Rightarrow> string \<Rightarrow> string \<Rightarrow> string \<Rightarrow> request_body \<Rightarrow> int \<Rightarrow> string \<Rightarrow> string
     \<Rightarrow> int \<Rightarrow> error + bool" where
  "verify_request_signature L now sg method url body timestamp cred_id secret max_age_seconds =
     (let current_time = py_trunc now
      in if \<bar>current_time - timestamp\<bar> > max_age_seconds then Inl SignatureError
         else compare_digest sg
                (generate_request_signature L method url body timestamp cred_id (Some secret)))"





section \<open>The credential handle (\<^verbatim>\<open>agentid/credential.py\<close>)\<close>

datatype credential_status = ACTIVE | EXPIRED | REVOKED

record agent_credential =
  ac_credential_id :: string
  api_key :: "string option"
  auto_refresh :: bool
  refresh_threshold :: real
  credential_data :: "credential_payload option"
  last_fetch :: real
  status :: "credential_status option"

definition new_credential :: "string \<Rightarrow> agent_credential" where
  "new_credential cid =
     \<lparr>ac_credential_id = cid, api_key = None, auto_refresh = True, refresh_threshold = 300,
      credential_data = None, last_fetch = 0, status = None\<rparr>"

definition cache_key :: "agent_credential \<Rightarrow> string" where
  "cache_key a = ''credential:'' @ ac_credential_id a"

definition time_to_expiry :: "real \<Rightarrow> agent_credential \<Rightarrow> real" where
  "time_to_expiry now a =
     (case credential_data a of
        None \<Rightarrow> 0
      | Some d \<Rightarrow> max 0 (valid_until (constraints d) - now))"

definition needs_refresh :: "real \<Rightarrow> agent_credential \<Rightarrow> bool" where
  "needs_refresh now a \<longleftrightarrow> time_to_expiry now a < refresh_threshold a"

definition handle_verify_response :: "http_response \<Rightarrow> error + verification_result" where
  \<comment> \<open>the body is parsed before the status 404 is looked at; \<^verbatim>\<open>data.get\<close> on JSON that is
      not an object raises \<^verbatim>\<open>AttributeError\<close>, unless the status 404 decides before\<close>
  "handle_verify_response response =
     (if status_code response = 429 then Inl (rate_limit_error response)
      else if status_code response = 401 then Inl AuthenticationError
      else (case resp_body response of
              NotJson \<Rightarrow> Inl (AgentIDError ''Invalid response from API'' None)
            | JsonNonDict \<Rightarrow>
                if status_code response = 404 then Inl CredentialNotFoundError
                else Inl AttributeError
            | JsonDict data \<Rightarrow>
                if status_code response = 404 \<or> j_error_code data = Some ''CREDENTIAL_NOT_FOUND''
                then Inl CredentialNotFoundError
                else if \<not> is_success response
                then Inl (AgentIDError
                            (case j_error data of None \<Rightarrow> ''Unknown error'' | Some e \<Rightarrow> e)
                            (j_error_code data))
                else parse_result data))"

definition update_from_result ::
  "real \<Rightarrow> agent_credential \<Rightarrow> cache \<Rightarrow> verification_result
     \<Rightarrow> (error + unit) \<times> agent_credential \<times> cache" where
  "update_from_result now a c result =
     (if \<not> valid result then
        (if error_code result = Some ''CREDENTIAL_EXPIRED''
         then (Inl CredentialExpiredError, a\<lparr>status := Some EXPIRED\<rparr>, c)
         else if error_code result = Some ''CREDENTIAL_REVOKED''
         then (Inl CredentialRevokedError, a\<lparr>status := Some REVOKED\<rparr>, c)
         else (Inl CredentialInvalidError, a, c))
      else
        (let a' = a\<lparr>credential_data := credential result, status := Some ACTIVE,
                     last_fetch := now\<rparr>
         in (case credential_data a' of
               None \<Rightarrow> (Inr (), a', c)
             | Some d \<Rightarrow>
                 (Inr (), a',
                  cache_set now c (cache_key a') (PayloadDict d)
                    (Some (min (time_to_expiry now a') 3600))))))"

text \<open>
  The outcome of \<^verbatim>\<open>load\<close>: the payload returned or the exception raised, the handle and
  the cache afterwards, and the number of requests sent to the remote authority.
\<close>

type_synonym load_outcome =
  "(error + credential_payload) \<times> agent_credential \<times> cache \<times> nat"

definition fetch_and_update ::
  "real \<Rightarrow> remote_reply \<Rightarrow> agent_credential \<Rightarrow> cache \<Rightarrow> load_outcome" where
  \<comment> \<open>the part of \<^verbatim>\<open>load\<close> after the cache lookup\<close>
  "fetch_and_update now remote a c =
     (case remote of
        RequestFailed \<Rightarrow> (Inl NetworkError, a, c, 1)
      | Reply response \<Rightarrow>
          (case handle_verify_response response of
             Inl e \<Rightarrow> (Inl e, a, c, 1)
           | Inr result \<Rightarrow>
               (case update_from_result now a c result of
                  (Inl e, a', c') \<Rightarrow> (Inl e, a', c', 1)
                | (Inr u, a', c') \<Rightarrow>
                    (case credential_data a' of
                       None \<Rightarrow> (Inl CredentialInvalidError, a', c', 1)
                     | Some d \<Rightarrow> (Inr d, a', c', 1)))))"

definition load ::
  "real \<Rightarrow> remote_reply \<Rightarrow> agent_credential \<Rightarrow> cache \<Rightarrow> bool \<Rightarrow> load_outcome" where
  "load now remote a c force =
     (if \<not> force then
        (case cache_get now c (cache_key a) of
           (None, c') \<Rightarrow> fetch_and_update now remote a c'
         | (Some cached, c') \<Rightarrow>
             if dict_truthy cached then
               (case payload_of_dict cached of
                  Inl e \<Rightarrow> (Inl e, a, c', 0)
                | Inr d \<Rightarrow>
                    (let a' = a\<lparr>credential_data := Some d, status := Some ACTIVE\<rparr>
                     in if \<not> needs_refresh now a' then (Inr d, a', c', 0)
                        else fetch_and_update now remote a' c'))
             else fetch_and_update now remote a c')
      else fetch_and_update now remote a c)"

section \<open>The revocation watch (\<^verbatim>\<open>agentid/revocation.py\<close>)\<close>

record revocation_event =
  ev_credential_id :: string
  revoked_at :: string
  ev_reason :: "string option"

record revocation_subscriber =
  revoked_credentials :: "string set"

definition new_subscriber :: revocation_subscriber where
  "new_subscriber = \<lparr>revoked_credentials = {}\<rparr>"

definition is_revoked :: "revocation_subscriber \<Rightarrow> string \<Rightarrow> bool" where
  "is_revoked sub cid \<longleftrightarrow> cid \<in> revoked_credentials sub"

definition handle_revocation_event ::
  "revocation_subscriber \<Rightarrow> cache \<Rightarrow> revocation_event \<Rightarrow> revocation_subscriber \<times> cache" where
  \<comment> \<open>the callback \<^verbatim>\<open>on_revocation\<close> runs last and its exceptions are dropped; it is left out\<close>
  "handle_revocation_event sub c event =
     (let sub' = sub\<lparr>revoked_credentials := insert (ev_credential_id event) (revoked_credentials sub)\<rparr>;
          c1 = snd (cache_delete c (''verify:'' @ ev_credential_id event));
          c2 = snd (cache_delete c1 (''cred:'' @ ev_credential_id event))
      in (sub', c2))"

section \<open>Example data\<close>



definition demo_verifier :: verifier where
  "demo_verifier =
     \<lparr>api_base = ''https://agentid.dev/api'', cache_ttl = 300,
      verify_signature = True, signature_max_age = 300\<rparr>"

definition demo_payload :: credential_payload where
  "demo_payload =
     \<lparr>credential_id = ''cred_1'', agent_id = ''agent_123'', agent_name = ''Test Agent'',
      permissions = [PStr ''read'', PStr ''write''],
      constraints = \<lparr>valid_from = 0, valid_until = 2592000\<rparr>,
      signature = ''test_signature''\<rparr>"

definition json_ok :: json_fields where
  "json_ok =
     \<lparr>j_valid = Some True, j_credential = Present demo_payload, j_error = None,
      j_error_code = None, j_trust_score = Some 85, j_issuer_verified = None\<rparr>"


definition reply_json :: "nat \<Rightarrow> json_fields \<Rightarrow> http_response" where
  "reply_json code data = \<lparr>status_code = code, retry_after = None, resp_body = JsonDict data\<rparr>"




definition headers_at :: "string \<Rightarrow> string \<Rightarrow> (string \<times> string) list" where
  "headers_at timestamp sg =
     [(''X-AgentID-Credential'', ''cred_123''),
      (''X-AgentID-Timestamp'', timestamp),
      (''X-AgentID-Nonce'', ''abc123''),
      (''X-AgentID-Signature'', sg)]"


definition huge_timestamp :: string where
  \<comment> \<open>the digit 1 followed by 309 zeros\<close>
  "huge_timestamp = CHR ''1'' # replicate 309 (CHR ''0'')"

definition demo_credential :: agent_credential where
  "demo_credential = new_credential ''cred_1''"


definition revoke_cred_1 :: revocation_event where
  "revoke_cred_1 =
     \<lparr>ev_credential_id = ''cred_1'', revoked_at = ''2026-01-01T00:00:00Z'', ev_reason = None\<rparr>"

definition cache_after_load :: cache where
  \<comment> \<open>the shared cache after the handle of \<^verbatim>\<open>cred_1\<close> has loaded its payload\<close>
  "cache_after_load =
     fst (snd (snd (load 10 (Reply (reply_json 200 json_ok)) demo_credential (new_cache 300) False)))"

definition cache_after_verify :: cache where
  \<comment> \<open>and after the verifier has verified \<^verbatim>\<open>cred_1\<close>\<close>
  "cache_after_verify =
     fst (snd (verify_credential demo_verifier 10 (Reply (reply_json 200 json_ok))
                 cache_after_load ''cred_1'' True))"

section \<open>Properties of the cache\<close>


lemma dict_ok_set: "dict_ok c \<Longrightarrow> dict_ok (cache_set now c k v ttl)"
  by (simp add: dict_ok_def cache_set_def Let_def distinct_update)

lemma dict_ok_get: "dict_ok c \<Longrightarrow> dict_ok (snd (cache_get now c k))"
  by (simp add: dict_ok_def cache_get_def distinct_delete split: option.splits)

lemma dict_ok_delete: "dict_ok c \<Longrightarrow> dict_ok (snd (cache_delete c k))"
  by (simp add: dict_ok_def cache_delete_def distinct_delete)

lemma dict_ok_new: "dict_ok (new_cache ttl)"
  by (simp add: dict_ok_def new_cache_def)




section \<open>Properties of the verifier's cache\<close>

















section \<open>Properties of request verification\<close>








text \<open>
  An integer timestamp too large for a float: the subtraction raises
  \<^verbatim>\<open>OverflowError\<close>, which \<^verbatim>\<open>verify_request\<close> does not catch.
\<close>

lemma digit_facts:
  "is_digit (CHR ''0'')" "digit_val (CHR ''0'') = 0" "is_digit (CHR ''1'')" "digit_val (CHR ''1'') = 1"
  "\<not> is_space (CHR ''0'')" "\<not> is_space (CHR ''1'')"
  by (simp_all add: is_digit_def digit_val_def is_space_def)

lemma digits_val_zeros: "digits_val acc (replicate k (CHR ''0'')) = Some (acc * 10 ^ k)"
  by (induction k arbitrary: acc) (simp_all add: digit_facts)

lemma strip_id: "s \<noteq> [] \<Longrightarrow> \<not> is_space (hd s) \<Longrightarrow> \<not> is_space (last s) \<Longrightarrow> strip s = s"
proof -
  assume a: "s \<noteq> []" "\<not> is_space (hd s)" "\<not> is_space (last s)"
  then have "dropWhile is_space s = s"
    by (cases s) simp_all
  moreover from a have "dropWhile is_space (rev s) = rev s"
    by (cases "rev s") (simp_all add: hd_rev)
  ultimately show ?thesis by (simp add: strip_def)
qed

lemma py_int_huge_timestamp: "py_int huge_timestamp = Some (10 ^ 309)"
proof -
  have "strip huge_timestamp = huge_timestamp"
    by (rule strip_id) (simp_all add: huge_timestamp_def digit_facts)
  then show ?thesis
    by (simp add: py_int_def huge_timestamp_def py_nat_def digit_facts digits_val_zeros)
qed

lemma lower_header_names:
  "lower ''X-AgentID-Credential'' = ''x-agentid-credential''"
  "lower ''X-AgentID-Timestamp'' = ''x-agentid-timestamp''"
  "lower ''X-AgentID-Nonce'' = ''x-agentid-nonce''"
  "lower ''X-AgentID-Signature'' = ''x-agentid-signature''"
  by code_simp+

lemma extract_headers_at:
  "extract_credential_info (headers_at ts sg) = (Some ''cred_123'', Some ts, Some ''abc123'', Some sg)"
  by (simp add: headers_at_def extract_credential_info_def lower_header_names)

lemma verify_request_huge_timestamp:
  "verify_request demo_verifier 2000 RequestFailed (new_cache 300) (headers_at huge_timestamp ''sig_abc'')
     = (Inl OverflowError, new_cache 300, 0)"
proof -
  have t: "truthy (Some huge_timestamp)"
    by (simp add: truthy_def huge_timestamp_def)
  have v: "verify_signature demo_verifier"
    by (simp add: demo_verifier_def)
  have lc: "local_checks demo_verifier 2000 (Some ''cred_123'') (Some huge_timestamp) (Some ''sig_abc'')
              = Some (Inl OverflowError)"
    using t v by (simp add: local_checks_def py_int_huge_timestamp truthy_def float_overflow_def)
  show ?thesis
    by (simp add: verify_request_def extract_headers_at lc)
qed

text \<open>
  Claim C2. Two header maps that carry the same credential id, timestamp and nonce and
  two non-empty signature values give the same outcome of \<^verbatim>\<open>verify_request\<close> and of
  \<^verbatim>\<open>verify_request_async\<close>: the same result or exception, the same cache afterwards
  and the same number of remote requests. The signature value is only tested for
  emptiness.
\<close>

theorem verify_request_ignores_signature_value:
  assumes "extract_credential_info h1 = (cid, ts, nonce, Some s1)"
    and "extract_credential_info h2 = (cid, ts, nonce, Some s2)"
    and "s1 \<noteq> []" and "s2 \<noteq> []"
  shows "verify_request v now remote c h1 = verify_request v now remote c h2
       \<and> verify_request_async v now remote c h1 = verify_request_async v now remote c h2"
proof -
  have "local_checks v now cid ts (Some s1) = local_checks v now cid ts (Some s2)"
    using assms(3,4) by (simp add: local_checks_def truthy_def)
  with assms(1,2) show ?thesis
    by (simp add: verify_request_def verify_request_async_def)
qed

theorem verify_request_ignores_signature_value_witness:
  "verify_request demo_verifier 1100 (Reply (reply_json 200 json_ok)) (new_cache 300)
       (headers_at ''1000'' ''c2lnbmF0dXJl'')
     = verify_request demo_verifier 1100 (Reply (reply_json 200 json_ok)) (new_cache 300)
       (headers_at ''1000'' ''forged'')
   \<and> verify_request_async demo_verifier 1100 (Reply (reply_json 200 json_ok)) (new_cache 300)
       (headers_at ''1000'' ''c2lnbmF0dXJl'')
     = verify_request_async demo_verifier 1100 (Reply (reply_json 200 json_ok)) (new_cache 300)
       (headers_at ''1000'' ''forged'')
   \<and> fst (verify_request demo_verifier 1100 (Reply (reply_json 200 json_ok)) (new_cache 300)
       (headers_at ''1000'' ''forged'')) = parse_result json_ok"
proof -
  have p: "py_int ''1000'' = Some 1000"
    by code_simp
  have lc: "local_checks demo_verifier 1100 (Some ''cred_123'') (Some ''1000'') (Some ''forged'') = None"
    by (simp add: local_checks_def truthy_def p float_overflow_def demo_verifier_def)
  have r: "fst (verify_request demo_verifier 1100 (Reply (reply_json 200 json_ok)) (new_cache 300)
       (headers_at ''1000'' ''forged'')) = parse_result json_ok"
    by (simp add: verify_request_def extract_headers_at lc verify_credential_def cache_get_def
        new_cache_def call_api_def handle_response_def reply_json_def parse_result_def json_ok_def)
  show ?thesis
    using verify_request_ignores_signature_value
      [OF extract_headers_at extract_headers_at, where ?s1.0 = "''c2lnbmF0dXJl''"
        and ?s2.0 = "''forged''" and v = demo_verifier and now = 1100
        and remote = "Reply (reply_json 200 json_ok)" and c = "new_cache 300"
        and ?ts1 = "''1000''"] r
    by simp
qed

section \<open>Reading back a printed integer\<close>














section \<open>Properties of request signatures\<close>



lemma verify_request_signature_cases:
  "verify_request_signature L now sg meth url body ts cid secret max_age =
     (if \<bar>py_trunc now - ts\<bar> > max_age then Inl SignatureError
      else if is_ascii sg \<and> is_ascii (generate_request_signature L meth url body ts cid (Some secret))
      then Inr (sg = generate_request_signature L meth url body ts cid (Some secret))
      else Inl TypeError)"
  by (simp add: verify_request_signature_def compare_digest_def Let_def)




text \<open>
  Claim C4 on the code. A fresh timestamp and a signature with a character outside
  ASCII: \<^verbatim>\<open>hmac.compare_digest\<close> raises \<^verbatim>\<open>TypeError\<close>, so the function neither returns a
  boolean nor raises \<^verbatim>\<open>SignatureError\<close>, whatever the hash library computes.
\<close>

theorem verify_request_signature_non_ascii:
  "verify_request_signature L 1000 [CHR 0xE9] ''GET'' ''https://api.example.com/data'' BodyNone
     1000 ''cred_test'' ''secret'' 300 = Inl TypeError"
  by (simp add: verify_request_signature_cases py_trunc_def is_ascii_def)

text \<open>On ASCII signatures the function behaves as the claim says.\<close>

lemma verify_request_signature_ascii:
  assumes "is_ascii sg"
    and "is_ascii (generate_request_signature L meth url body ts cid (Some secret))"
  shows "(verify_request_signature L now sg meth url body ts cid secret max_age = Inl SignatureError
            \<longleftrightarrow> \<bar>py_trunc now - ts\<bar> > max_age)
       \<and> (\<not> \<bar>py_trunc now - ts\<bar> > max_age \<longrightarrow>
            verify_request_signature L now sg meth url body ts cid secret max_age
              = Inr (sg = generate_request_signature L meth url body ts cid (Some secret)))"
  using assms by (simp add: verify_request_signature_cases)

section \<open>Properties of the permission evaluator\<close>


lemma check_permission_passed_over:
  "passed_over P res action perm \<Longrightarrow>
     check_permission P (perm # perms) res action ctx = check_permission P perms res action ctx"
  by (cases perm) (auto simp: passed_over_def)

lemma check_permission_skip_prefix:
  "list_all (passed_over P res action) pre \<Longrightarrow>
     check_permission P (pre @ perms) res action ctx = check_permission P perms res action ctx"
  by (induction pre) (simp_all add: check_permission_passed_over)

lemma check_permission_decides:
  "\<not> passed_over P res action perm \<Longrightarrow>
     check_permission P (perm # perms) res action ctx =
       (case perm of PStr s \<Rightarrow> Inr grant | PStruct p \<Rightarrow> check_conditions P p ctx)"
  by (cases perm) (auto simp: passed_over_def)

text \<open>
  Claim C5. \<^verbatim>\<open>check_permission\<close> takes the permissions in the order given and the first
  entry that is not passed over decides: a string grants exactly when it is \<^verbatim>\<open>*\<close> or the
  action, whatever the resource; a structured permission is passed over unless the
  resource matches its pattern and the action is among its actions or these contain
  \<^verbatim>\<open>*\<close>; and when every entry is passed over the result is a denial with the reason
  \<^verbatim>\<open>No permission for <action> on <resource>\<close>.
\<close>

theorem check_permission_first_match:
  "check_permission P perms res action ctx = first_match_decision P perms res action ctx
   \<and> (list_all (passed_over P res action) perms \<longrightarrow>
        check_permission P perms res action ctx
          = Inr \<lparr>granted = False, reason = Some (''No permission for '' @ action @ '' on '' @ res)\<rparr>)
   \<and> check_permission P (PStr s # perms) res action ctx
        = (if s = ''*'' \<or> s = action then Inr \<lparr>granted = True, reason = None\<rparr>
           else check_permission P perms res action ctx)
   \<and> (\<not> (fnmatch P res (resource p) \<and> (action \<in> set (actions p) \<or> ''*'' \<in> set (actions p))) \<longrightarrow>
        check_permission P (PStruct p # perms) res action ctx
          = check_permission P perms res action ctx)"
proof (intro conjI impI)
  show "check_permission P perms res action ctx = first_match_decision P perms res action ctx"
  proof (induction perms)
    case Nil
    show ?case by (simp add: first_match_decision_def deny_def)
  next
    case (Cons perm perms)
    show ?case
    proof (cases "passed_over P res action perm")
      case True
      with Cons show ?thesis
        by (simp add: check_permission_passed_over first_match_decision_def)
    next
      case False
      then have d: "check_permission P (perm # perms) res action ctx =
          (case perm of PStr s \<Rightarrow> Inr grant | PStruct p \<Rightarrow> check_conditions P p ctx)"
        by (rule check_permission_decides)
      from False have "first_match_decision P (perm # perms) res action ctx =
          (case perm of PStr s \<Rightarrow> Inr grant | PStruct p \<Rightarrow> check_conditions P p ctx)"
        by (simp add: first_match_decision_def grant_def split: perm.splits)
      with d show ?thesis by simp
    qed
  qed
  show "check_permission P (PStr s # perms) res action ctx
        = (if s = ''*'' \<or> s = action then Inr \<lparr>granted = True, reason = None\<rparr>
           else check_permission P perms res action ctx)"
    by (simp add: grant_def)
next
  assume "list_all (passed_over P res action) perms"
  then have "check_permission P (perms @ []) res action ctx = check_permission P [] res action ctx"
    by (rule check_permission_skip_prefix)
  then show "check_permission P perms res action ctx
          = Inr \<lparr>granted = False, reason = Some (''No permission for '' @ action @ '' on '' @ res)\<rparr>"
    by (simp add: deny_def)
next
  assume "\<not> (fnmatch P res (resource p) \<and> (action \<in> set (actions p) \<or> ''*'' \<in> set (actions p)))"
  then show "check_permission P (PStruct p # perms) res action ctx
          = check_permission P perms res action ctx"
    by auto
qed


theorem check_permission_first_match_witness:
  "list_all (passed_over demo_pylib ''https://api.example.com/admin/settings'' ''delete'') [PStr ''read'']
   \<and> \<not> fnmatch demo_pylib ''https://api.example.com/admin/settings'' (resource users_permission)
   \<and> check_permission demo_pylib [PStr ''read''] ''https://api.example.com/admin/settings'' ''delete'' None
       = Inr \<lparr>granted = False,
              reason = Some ''No permission for delete on https://api.example.com/admin/settings''\<rparr>
   \<and> check_permission demo_pylib [PStr ''write'', PStr ''read'']
         ''https://api.example.com/admin/settings'' ''delete'' None
       = Inr \<lparr>granted = False,
              reason = Some ''No permission for delete on https://api.example.com/admin/settings''\<rparr>
   \<and> check_permission demo_pylib [PStruct users_permission, PStr ''read'']
         ''https://api.example.com/admin/settings'' ''delete'' None
       = Inr \<lparr>granted = False,
              reason = Some ''No permission for delete on https://api.example.com/admin/settings''\<rparr>"
proof -
  have m: "\<not> fnmatch demo_pylib ''https://api.example.com/admin/settings'' (resource users_permission)"
    by (simp add: demo_pylib_def users_permission_def)
  have a: "list_all (passed_over demo_pylib ''https://api.example.com/admin/settings'' ''delete'')
             [PStr ''read'']"
    by (simp add: passed_over_def)
  show ?thesis
    using check_permission_first_match [where P = demo_pylib and perms = "[PStr ''read'']"
        and res = "''https://api.example.com/admin/settings''" and action = "''delete''"
        and ctx = None and s = "''write''" and p = users_permission] m a
    by simp
qed

section \<open>Conditions of a structured permission\<close>










section \<open>Properties of the credential handle\<close>












section \<open>Properties of the revocation watch\<close>

lemma map_of_delete_other: "k' \<noteq> k \<Longrightarrow> map_of (AList.delete k xs) k' = map_of xs k'"
  by (simp add: delete_conv')

lemma cache_delete_store:
  "map_of (cache_store (snd (cache_delete c k))) k' = (if k' = k then None else map_of (cache_store c) k')"
proof (cases "k \<in> fst ` set (cache_store c)")
  case True
  then show ?thesis
    by (simp add: cache_delete_def delete_conv')
next
  case False
  then have "map_of (cache_store c) k = None"
    by (simp add: map_of_eq_None_iff)
  with False show ?thesis
    by (simp add: cache_delete_def)
qed

lemma credential_key_distinct:
  "''credential:'' @ cid \<noteq> ''verify:'' @ cid'" "''credential:'' @ cid \<noteq> ''cred:'' @ cid'"
  by simp_all

text \<open>
  What one revocation event does, for every subscriber and cache: the id joins the
  revoked set, the keys \<^verbatim>\<open>verify:<id>\<close> and \<^verbatim>\<open>cred:<id>\<close> are gone, and the entry under
  \<^verbatim>\<open>credential:<id>\<close>, the key of the credential handle, is untouched.
\<close>

lemma handle_revocation_event_effect:
  assumes "handle_revocation_event sub c event = (sub', c')"
  shows "is_revoked sub' y \<longleftrightarrow> y = ev_credential_id event \<or> is_revoked sub y"
    and "map_of (cache_store c') (''verify:'' @ ev_credential_id event) = None"
    and "map_of (cache_store c') (''cred:'' @ ev_credential_id event) = None"
    and "map_of (cache_store c') (''credential:'' @ cid) = map_of (cache_store c) (''credential:'' @ cid)"
  using assms
  by (auto simp: handle_revocation_event_def Let_def is_revoked_def cache_delete_store)


lemma cache_after_load_store:
  "cache_after_load =
     \<lparr>cache_store = [(''credential:cred_1'',
          \<lparr>entry_value = PayloadDict demo_payload, expires_at = 3610, created_at = 10\<rparr>)],
      default_ttl = 300\<rparr>"
  by (simp add: cache_after_load_def load_def cache_get_def new_cache_def demo_credential_def
      new_credential_def cache_key_def fetch_and_update_def handle_verify_response_def
      reply_json_def json_ok_def is_success_def parse_result_def update_from_result_def Let_def
      cache_set_def time_to_expiry_def demo_payload_def)

lemma cache_after_verify_store:
  "cache_after_verify =
     \<lparr>cache_store =
        [(''credential:cred_1'',
          \<lparr>entry_value = PayloadDict demo_payload, expires_at = 3610, created_at = 10\<rparr>),
         (''verify:cred_1'',
          \<lparr>entry_value = ResultDict
             \<lparr>valid = True, credential = Some demo_payload, error = None, error_code = None,
              trust_score = Some 85, issuer_verified = None\<rparr>,
           expires_at = 310, created_at = 10\<rparr>)],
      default_ttl = 300\<rparr>"
  by (simp add: cache_after_verify_def cache_after_load_store verify_credential_def cache_get_def
      call_api_def handle_response_def reply_json_def json_ok_def parse_result_def cache_set_def
      demo_verifier_def)

text \<open>
  Claim C8 on the code. The credential handle stores its payload under
  \<^verbatim>\<open>credential:<id>\<close>, the revocation watch deletes \<^verbatim>\<open>verify:<id>\<close> and \<^verbatim>\<open>cred:<id>\<close>.
  After the event for \<^verbatim>\<open>cred_1\<close> the id is in the revoked set and another id is not, the
  verifier's entry is gone, but the payload of the revoked credential is still cached and
  \<^verbatim>\<open>load\<close> returns it without asking the remote authority.
\<close>

theorem revocation_keeps_handle_entry:
  "map fst (cache_store cache_after_verify) = [''credential:cred_1'', ''verify:cred_1'']
   \<and> is_revoked (fst (handle_revocation_event new_subscriber cache_after_verify revoke_cred_1)) ''cred_1''
   \<and> \<not> is_revoked (fst (handle_revocation_event new_subscriber cache_after_verify revoke_cred_1)) ''cred_Y''
   \<and> map fst (cache_store (snd (handle_revocation_event new_subscriber cache_after_verify revoke_cred_1)))
       = [cache_key demo_credential]
   \<and> fst (cache_get 20 (snd (handle_revocation_event new_subscriber cache_after_verify revoke_cred_1))
            (cache_key demo_credential))
       = Some (PayloadDict demo_payload)
   \<and> fst (load 20 RequestFailed demo_credential
            (snd (handle_revocation_event new_subscriber cache_after_verify revoke_cred_1)) False)
       = Inr demo_payload"
proof -
  have k: "cache_key demo_credential = ''credential:cred_1''"
    by (simp add: cache_key_def demo_credential_def new_credential_def)
  have h: "handle_revocation_event new_subscriber cache_after_verify revoke_cred_1
      = (\<lparr>revoked_credentials = {''cred_1''}\<rparr>, cache_after_load)"
    by (simp add: handle_revocation_event_def Let_def cache_after_verify_store
        cache_after_load_store revoke_cred_1_def cache_delete_def new_subscriber_def)
  have g: "cache_get 20 cache_after_load ''credential:cred_1''
      = (Some (PayloadDict demo_payload), cache_after_load)"
    by (simp add: cache_get_def cache_after_load_store is_expired_def)
  have n: "\<not> needs_refresh 20
      (demo_credential\<lparr>credential_data := Some demo_payload, status := Some ACTIVE\<rparr>)"
    by (simp add: needs_refresh_def time_to_expiry_def demo_credential_def new_credential_def
        demo_payload_def)
  have l: "fst (load 20 RequestFailed demo_credential cache_after_load False) = Inr demo_payload"
    using n by (simp add: load_def k g dict_truthy_def payload_of_dict_def Let_def)
  have s1: "map fst (cache_store cache_after_verify) = [''credential:cred_1'', ''verify:cred_1'']"
    by (simp add: cache_after_verify_store)
  have s2: "map fst (cache_store cache_after_load) = [''credential:cred_1'']"
    by (simp add: cache_after_load_store)
  show ?thesis
    unfolding h k using g l s1 s2 by (simp add: is_revoked_def)
qed

end
